theory Spec2Isabelle
  imports Complex_Main "HOL-Library.Log_Nat"
begin

section \<open>JavaScript values used by the payment service\<close>

text \<open>
  The sources are \<^verbatim>\<open>src/scripts/payment.js\<close> (class \<^verbatim>\<open>SecurePayService\<close>) and the
  earlier variant of the same class in \<^verbatim>\<open>src/unnamed/part_000\<close>. Strings are byte strings
  (ASCII text). A JavaScript Number is \<open>NaN\<close>, an infinity, the negative zero, or a
  finite binary64 value carried as the rational it denotes (\<open>Fin 0\<close> is the positive
  zero).
\<close>

datatype jsnum = NaN | PosInf | NegInf | NegZero | Fin rat

text \<open>
  A value as \<^verbatim>\<open>JSON.parse\<close> gives it. A number of the text that is too large for binary64
  (\<^verbatim>\<open>1e400\<close>) is parsed as an infinity, and \<^verbatim>\<open>-0\<close> as the negative zero.
\<close>

datatype json =
    JNull
  | JBool bool
  | JNum jsnum
  | JStr string
  | JArr "json list"
  | JObj "(string \<times> json) list"

text \<open>
  A value read from a property: \<open>Undefined\<close>, a JSON value, or a built-in of the engine
  (a function or prototype object) named by the property under which it was found.
\<close>

datatype jsval = Undefined | Val json | Native string

text \<open>
  Exceptions. \<open>Error m\<close> is \<^verbatim>\<open>new Error(m)\<close>; \<open>TypeError\<close>, \<open>SyntaxError\<close> and
  \<open>DOMException\<close> are raised by the engine and the browser, and carry the operation that
  failed or the name of the exception (their message text is the engine's).
\<close>

datatype js_error = Error string | TypeError string | SyntaxError string | DOMException string

text \<open>
  What the engine and the browser contribute and the sources do not fix: the decimal text
  of a finite Number (\<^verbatim>\<open>Number::toString\<close>), the source text of a built-in, the message
  text of their own errors, whether the URL parser accepts a string as a URL of the
  document, whether \<^verbatim>\<open>localStorage\<close> may be used at all, and whether it accepts the text
  of a value (its quota).
\<close>

record engine =
  numberToString :: "rat \<Rightarrow> string"
  nativeToString :: "string \<Rightarrow> string"
  nativeMessage :: "js_error \<Rightarrow> string"
  urlParses :: "string \<Rightarrow> bool"
  storageDenied :: bool
  storageAccepts :: "json \<Rightarrow> bool"

definition messageOf :: "engine \<Rightarrow> js_error \<Rightarrow> string" where
  "messageOf eng e = (case e of Error m \<Rightarrow> m | _ \<Rightarrow> nativeMessage eng e)"

definition truthy :: "jsval \<Rightarrow> bool" where
  "truthy v =
     (case v of
        Undefined \<Rightarrow> False
      | Native _ \<Rightarrow> True
      | Val JNull \<Rightarrow> False
      | Val (JBool b) \<Rightarrow> b
      | Val (JNum x) \<Rightarrow> (case x of NaN \<Rightarrow> False | NegZero \<Rightarrow> False | Fin r \<Rightarrow> r \<noteq> 0 | _ \<Rightarrow> True)
      | Val (JStr s) \<Rightarrow> s \<noteq> []
      | Val (JArr _) \<Rightarrow> True
      | Val (JObj _) \<Rightarrow> True)"

text \<open>A string read from the page, or \<open>None\<close> for \<^verbatim>\<open>undefined\<close>/\<^verbatim>\<open>null\<close>.\<close>

definition truthyText :: "string option \<Rightarrow> bool" where
  "truthyText v = (case v of None \<Rightarrow> False | Some s \<Rightarrow> s \<noteq> [])"

text \<open>The negation \<^verbatim>\<open>!v\<close> of such a string.\<close>

definition falsyText :: "string option \<Rightarrow> bool" where
  "falsyText v = (case v of None \<Rightarrow> True | Some s \<Rightarrow> s = [])"

subsection \<open>Conversion to a string\<close>

text \<open>
  \<^verbatim>\<open>ToString\<close> of an object goes through \<^verbatim>\<open>ToPrimitive\<close>: its \<^verbatim>\<open>toString\<close> is called, and
  \<^verbatim>\<open>valueOf\<close> when that is not callable. A property of a parsed JSON object is never
  callable, so an object with an own property \<^verbatim>\<open>toString\<close> cannot be converted (what
  \<^verbatim>\<open>Object.prototype.valueOf\<close> returns is not a primitive): a \<^verbatim>\<open>TypeError\<close>. Any other
  object is \<^verbatim>\<open>[object Object]\<close>. An array is the join of its elements, so it can be
  converted when they can. The same holds where the sources make a Date or a property key
  of a value.
\<close>

fun convertible :: "json \<Rightarrow> bool" where
  "convertible (JObj kvs) = (''toString'' \<notin> fst ` set kvs)"
| "convertible (JArr xs) = list_all convertible xs"
| "convertible v = True"

fun joinWith :: "string \<Rightarrow> string list \<Rightarrow> string" where
  "joinWith sep [] = []"
| "joinWith sep [x] = x"
| "joinWith sep (x # y # ys) = x @ sep @ joinWith sep (y # ys)"



definition convertibleVal :: "jsval \<Rightarrow> bool" where
  "convertibleVal v = (case v of Val j \<Rightarrow> convertible j | _ \<Rightarrow> True)"


subsection \<open>Numbers: \<^verbatim>\<open>parseFloat\<close> and \<^verbatim>\<open>toFixed\<close>\<close>

definition pow2 :: "int \<Rightarrow> rat" where
  "pow2 k = (if 0 \<le> k then 2 ^ nat k else 1 / 2 ^ nat (- k))"

definition pow10 :: "int \<Rightarrow> rat" where
  "pow10 k = (if 0 \<le> k then 10 ^ nat k else 1 / 10 ^ nat (- k))"

definition roundHalfEven :: "rat \<Rightarrow> int" where
  "roundHalfEven y =
     (let f = \<lfloor>y\<rfloor>; d = y - of_int f
      in if d < 1 / 2 then f else if 1 / 2 < d then f + 1
         else if even f then f else f + 1)"

definition floorLog2 :: "rat \<Rightarrow> int" where
  "floorLog2 a =
     (let (n, d) = quotient_of a; p0 = bitlen n - bitlen d
      in if pow2 p0 \<le> a then p0 else p0 - 1)"

text \<open>
  The Number value for a real \<open>x\<close> other than zero: the nearest binary64 value, ties to
  even, with 53 significant bits, subnormals below \<open>2\<^sup>-\<^sup>1\<^sup>0\<^sup>2\<^sup>2\<close>, overflow to an infinity
  and underflow to the zero of the sign of \<open>x\<close>.
\<close>

definition toDouble :: "rat \<Rightarrow> jsnum" where
  "toDouble x =
     (if x = 0 then Fin 0
      else let a = \<bar>x\<bar>;
               e = max (floorLog2 a) (- 1022);
               q = pow2 (e - 52);
               r = of_int (roundHalfEven (a / q)) * q
           in if pow2 1024 \<le> r then (if x < 0 then NegInf else PosInf)
              else if x < 0 then (if r = 0 then NegZero else Fin (- r))
              else Fin r)"

definition isDigit :: "char \<Rightarrow> bool" where
  "isDigit c = (c \<in> set ''0123456789'')"

definition digitVal :: "char \<Rightarrow> int" where
  "digitVal c = of_char c - 48"

definition digitsValue :: "string \<Rightarrow> int" where
  "digitsValue ds = foldl (\<lambda>a c. 10 * a + digitVal c) 0 ds"

text \<open>The ASCII white space and line terminators (tab, LF, VT, FF, CR, space).\<close>

definition isWhiteSpace :: "char \<Rightarrow> bool" where
  "isWhiteSpace c = (of_char c \<in> {9, 10, 11, 12, 13, 32 :: nat})"

text \<open>
  The value of an \<^verbatim>\<open>ExponentPart\<close> at the head of \<open>r\<close>: \<^verbatim>\<open>e\<close> or \<^verbatim>\<open>E\<close>, an optional
  sign and at least one digit; \<open>0\<close> when \<open>r\<close> does not start with one.
\<close>

definition exponentPart :: "string \<Rightarrow> int" where
  "exponentPart r =
     (case r of
        [] \<Rightarrow> 0
      | c # r' \<Rightarrow>
          if c = CHR ''e'' \<or> c = CHR ''E'' then
            (case r' of
               [] \<Rightarrow> 0
             | d # r'' \<Rightarrow>
                 if d = CHR ''-'' then - digitsValue (takeWhile isDigit r'')
                 else if d = CHR ''+'' then digitsValue (takeWhile isDigit r'')
                 else digitsValue (takeWhile isDigit r'))
          else 0)"

text \<open>
  \<^verbatim>\<open>parseFloat(s)\<close>: leading white space is dropped, the longest prefix that is a
  \<^verbatim>\<open>StrDecimalLiteral\<close> (sign, \<^verbatim>\<open>Infinity\<close> or digits with an optional fraction and
  exponent) is read, and its value is rounded to a Number; \<open>NaN\<close> when there is no such
  prefix.
\<close>

definition parseFloat :: "string \<Rightarrow> jsnum" where
  "parseFloat s =
     (let t = dropWhile isWhiteSpace s;
          neg = (take 1 t = ''-'');
          u = (if take 1 t = ''-'' \<or> take 1 t = ''+'' then drop 1 t else t)
      in if take 8 u = ''Infinity'' then (if neg then NegInf else PosInf)
         else
           let ip = takeWhile isDigit u;
               r1 = dropWhile isDigit u;
               fp = (if take 1 r1 = ''.'' then takeWhile isDigit (drop 1 r1) else []);
               r2 = (if take 1 r1 = ''.'' then dropWhile isDigit (drop 1 r1) else r1)
           in if ip = [] \<and> fp = [] then NaN
              else
                let mv = of_int (digitsValue (ip @ fp)) * pow10 (exponentPart r2 - int (length fp))
                in if mv = 0 then (if neg then NegZero else Fin 0)
                   else toDouble (if neg then - mv else mv))"

text \<open>The comparison \<^verbatim>\<open>x <= 0\<close> on Numbers: false when \<open>x\<close> is \<open>NaN\<close>.\<close>

definition numLeZero :: "jsnum \<Rightarrow> bool" where
  "numLeZero x =
     (case x of NaN \<Rightarrow> False | PosInf \<Rightarrow> False | NegInf \<Rightarrow> True | NegZero \<Rightarrow> True
      | Fin r \<Rightarrow> r \<le> 0)"

definition digitChar :: "int \<Rightarrow> char" where
  "digitChar d = ''0123456789'' ! nat d"

function decimalDigits :: "int \<Rightarrow> string" where
  "decimalDigits n = (if n < 10 then [digitChar n] else decimalDigits (n div 10) @ [digitChar (n mod 10)])"
  by pat_completeness auto
termination
  by (relation "measure nat") auto

declare decimalDigits.simps [simp del]

definition intToString :: "int \<Rightarrow> string" where
  "intToString n = (if n < 0 then ''-'' @ decimalDigits (- n) else decimalDigits n)"

text \<open>
  \<^verbatim>\<open>x.toFixed(f)\<close>: \<open>n\<close> is the integer nearest to \<open>x \<sqdot> 10\<^sup>f\<close> (the larger one of two), printed
  with \<open>f\<close> digits after the point; the negative zero is printed as the positive one, and
  values of \<open>10\<^sup>2\<^sup>1\<close> and more are printed as \<^verbatim>\<open>Number::toString\<close> prints them.
\<close>

definition fixedDigits :: "engine \<Rightarrow> nat \<Rightarrow> rat \<Rightarrow> string" where
  "fixedDigits eng f r =
     (let s = (if r < 0 then ''-'' else []);
          a = \<bar>r\<bar>
      in if 10 ^ 21 \<le> a then s @ numberToString eng a
         else
           let n = \<lfloor>a * 10 ^ f + 1 / 2\<rfloor>;
               m = decimalDigits n;
               m' = (if length m \<le> f then replicate (f + 1 - length m) CHR ''0'' @ m else m);
               k = length m'
           in s @ (if f = 0 then m' else take (k - f) m' @ ''.'' @ drop (k - f) m'))"

definition toFixed :: "engine \<Rightarrow> nat \<Rightarrow> jsnum \<Rightarrow> string" where
  "toFixed eng f x =
     (case x of
        NaN \<Rightarrow> ''NaN''
      | PosInf \<Rightarrow> ''Infinity''
      | NegInf \<Rightarrow> ''-Infinity''
      | NegZero \<Rightarrow> fixedDigits eng f 0
      | Fin r \<Rightarrow> fixedDigits eng f r)"

section \<open>Objects and the payment-method table\<close>

text \<open>
  An object is the list of its own enumerable properties in enumeration order, with
  distinct keys. A property that is not an own property is looked up on
  \<^verbatim>\<open>Object.prototype\<close>, whose properties are the built-ins named below.
\<close>

definition objectPrototypeKeys :: "string list" where
  "objectPrototypeKeys =
     [''constructor'', ''hasOwnProperty'', ''isPrototypeOf'', ''propertyIsEnumerable'',
      ''toLocaleString'', ''toString'', ''valueOf'', ''__proto__'',
      ''__defineGetter__'', ''__defineSetter__'', ''__lookupGetter__'', ''__lookupSetter__'']"

definition objGet :: "(string \<times> json) list \<Rightarrow> string \<Rightarrow> jsval" where
  "objGet kvs k =
     (case map_of kvs k of
        Some v \<Rightarrow> Val v
      | None \<Rightarrow> if k \<in> set objectPrototypeKeys then Native k else Undefined)"

text \<open>
  \<^verbatim>\<open>v.k\<close> for a JSON value \<open>v\<close> other than \<^verbatim>\<open>null\<close> (on \<^verbatim>\<open>null\<close> the read throws, which
  the callers below handle). The sources read \<^verbatim>\<open>success\<close>, \<^verbatim>\<open>status\<close>, \<^verbatim>\<open>message\<close>,
  \<^verbatim>\<open>checkout_url\<close>, \<^verbatim>\<open>date\<close>, \<^verbatim>\<open>transaction_id\<close>, \<^verbatim>\<open>transactionId\<close>, \<^verbatim>\<open>id\<close>,
  \<^verbatim>\<open>amount\<close> and \<^verbatim>\<open>method\<close> only, none of which strings, numbers, booleans or arrays
  have.
\<close>

definition getProp :: "json \<Rightarrow> string \<Rightarrow> jsval" where
  "getProp v k = (case v of JObj kvs \<Rightarrow> objGet kvs k | _ \<Rightarrow> objGet [] k)"

text \<open>
  \<^verbatim>\<open>
  mapPaymentMethod(internalMethod) {
      const methodMapping = { 'fpx': 'fpx', 'card': 'card', 'wallet': 'boost', 'qr': 'duitnow_qr' };
      return methodMapping[internalMethod] || 'fpx';
  }
  \<close>
\<close>

definition methodMapping :: "(string \<times> json) list" where
  "methodMapping =
     [(''fpx'', JStr ''fpx''), (''card'', JStr ''card''),
      (''wallet'', JStr ''boost''), (''qr'', JStr ''duitnow_qr'')]"

definition mapPaymentMethod :: "string \<Rightarrow> jsval" where
  "mapPaymentMethod internalMethod =
     (let v = objGet methodMapping internalMethod
      in if truthy v then v else Val (JStr ''fpx''))"

text \<open>
  \<^verbatim>\<open>{...payment, timestamp: t}\<close>: the own properties of \<open>payment\<close> (the elements of an
  array and the characters of a string under their indices, nothing for other
  primitives), with \<open>timestamp\<close> overwritten in place or added last.
\<close>

definition spreadProps :: "json \<Rightarrow> (string \<times> json) list" where
  "spreadProps v =
     (case v of
        JObj kvs \<Rightarrow> kvs
      | JArr xs \<Rightarrow> zip (map (\<lambda>i. intToString (int i)) [0..<length xs]) xs
      | JStr s \<Rightarrow> zip (map (\<lambda>i. intToString (int i)) [0..<length s]) (map (\<lambda>c. JStr [c]) s)
      | _ \<Rightarrow> [])"

definition setProp :: "(string \<times> json) list \<Rightarrow> string \<Rightarrow> json \<Rightarrow> (string \<times> json) list" where
  "setProp kvs k v =
     (if k \<in> fst ` set kvs then map (\<lambda>(k', v'). if k' = k then (k', v) else (k', v')) kvs
      else kvs @ [(k, v)])"

section \<open>The page: location, storage, display regions, pending work\<close>

text \<open>
  The visible location: the text before the query, the query as it is written (without
  its \<^verbatim>\<open>?\<close>; \<open>None\<close> when the URL has none), the decoded name/value pairs that
  \<^verbatim>\<open>URLSearchParams\<close> makes of that query, and the fragment with its \<^verbatim>\<open>#\<close>.
\<close>

record location =
  origin_path :: string
  query :: "string option"
  searchParams :: "(string \<times> string) list"
  fragment :: string

definition href :: "location \<Rightarrow> string" where
  "href l = origin_path l @ (case query l of None \<Rightarrow> [] | Some q \<Rightarrow> ''?'' @ q) @ fragment l"

text \<open>
  The serialisation of a list of pairs that a \<^verbatim>\<open>URL\<close> object writes into its query after
  \<^verbatim>\<open>searchParams.delete\<close>: form-encoded, and no query at all when the list is empty.
\<close>

definition hexDigit :: "nat \<Rightarrow> char" where
  "hexDigit d = ''0123456789ABCDEF'' ! d"

definition urlencodeByte :: "char \<Rightarrow> string" where
  "urlencodeByte c =
     (let n = (of_char c :: nat)
      in if (48 \<le> n \<and> n \<le> 57) \<or> (65 \<le> n \<and> n \<le> 90) \<or> (97 \<le> n \<and> n \<le> 122)
            \<or> c \<in> set ''*-._'' then [c]
         else if c = CHR '' '' then ''+''
         else [CHR ''%'', hexDigit (n div 16), hexDigit (n mod 16)])"

definition urlencode :: "string \<Rightarrow> string" where
  "urlencode s = concat (map urlencodeByte s)"

definition serializeParams :: "(string \<times> string) list \<Rightarrow> string option" where
  "serializeParams ps =
     (if ps = [] then None
      else Some (joinWith ''&'' (map (\<lambda>kv. urlencode (fst kv) @ ''='' @ urlencode (snd kv)) ps)))"

text \<open>\<^verbatim>\<open>urlParams.get(name)\<close>: the first value under the name, or \<^verbatim>\<open>null\<close>.\<close>

definition getParam :: "(string \<times> string) list \<Rightarrow> string \<Rightarrow> string option" where
  "getParam ps k = map_of ps k"

text \<open>\<^verbatim>\<open>url.searchParams.delete(name)\<close>: every pair under the name is removed.\<close>

definition deleteParam :: "string \<Rightarrow> (string \<times> string) list \<Rightarrow> (string \<times> string) list" where
  "deleteParam k ps = filter (\<lambda>kv. fst kv \<noteq> k) ps"

text \<open>
  The gateway payload built by \<^verbatim>\<open>handlePaymentSubmit\<close>; the nested objects
  \<^verbatim>\<open>customer\<close>, \<^verbatim>\<open>payment\<close>, \<^verbatim>\<open>redirect\<close> and \<^verbatim>\<open>metadata\<close> are flattened into the
  field names.
\<close>

record payload =
  amount :: string
  currency :: string
  reference_id :: string
  description :: string
  customer_name :: string
  customer_email :: string
  customer_phone :: string
  payment_method :: jsval
  redirect_return_url :: string
  redirect_cancel_url :: string
  metadata_source :: string

text \<open>An outstanding \<^verbatim>\<open>fetch\<close>: \<^verbatim>\<open>createPaymentSession\<close> posts a payload, \<^verbatim>\<open>checkPaymentStatus\<close> gets by id.\<close>

record request =
  rq_method :: string
  rq_url :: string
  rq_headers :: "(string \<times> string) list"
  rq_body :: "payload option"

text \<open>
  How a \<^verbatim>\<open>fetch(...).then(response => response.json())\<close> settles: with the parsed body,
  or not at all (the transport failed, or the body was not JSON).
\<close>

datatype reply = NetworkFailure | Body json

text \<open>
  The callbacks handed to \<^verbatim>\<open>setTimeout\<close>: hiding the message (\<^verbatim>\<open>showPaymentMessage\<close>),
  the two stages of the simulated gateway of \<^verbatim>\<open>payment.js\<close>, and the simulated payment
  of \<^verbatim>\<open>part_000\<close>; the strings are the captured \<^verbatim>\<open>paymentAmount\<close> and \<^verbatim>\<open>paymentMethod\<close>.
\<close>

datatype task =
    HideMessage
  | SimulateGateway string string
  | SimulateRedirect string string
  | SimulatePayment string string

text \<open>
  The item \<^verbatim>\<open>zakatPaymentHistory\<close> of \<^verbatim>\<open>localStorage\<close>, by what \<^verbatim>\<open>JSON.parse\<close> makes of
  its text: the empty text, a text that does not parse, or the parsed value (which holds
  an infinity where the text has a number like \<^verbatim>\<open>1e400\<close>).
\<close>

datatype item = EmptyText | Unparseable | Parsed json

record message_box =
  textContent :: string
  className :: string
  display :: string

text \<open>
  The service instance and the part of the browser it acts on. A display region is
  \<open>None\<close> when the document has no element of that id, otherwise its
  \<^verbatim>\<open>style.display\<close>; \<open>paymentDetails\<close> holds the payment whose summary was rendered into
  it, if any. \<open>navigation\<close> is the URL that an assignment to \<^verbatim>\<open>window.location.href\<close>
  asked the location to go to.
\<close>

record page =
  apiKey :: string
  merchantId :: string
  apiEndpoint :: string
  isTestMode :: bool
  location :: location
  navigation :: "string option"
  storage :: "item option"
  paymentProcessing :: "string option"
  paymentForm :: "string option"
  paymentSuccess :: "string option"
  paymentDetails :: "json option option"
  paymentMessage :: "message_box option"
  timers :: "(nat \<times> task) list"
  requests :: "request list"

text \<open>The clock: \<^verbatim>\<open>Date.now()\<close> / \<^verbatim>\<open>new Date().getTime()\<close> and \<^verbatim>\<open>new Date().toISOString()\<close>.\<close>

record clock =
  nowMs :: int
  nowISO :: string

text \<open>
  The two draws of a simulated payment: whether \<^verbatim>\<open>Math.random() > 0.2\<close>, and the value of
  \<^verbatim>\<open>Math.floor(Math.random() * 1000000)\<close>.
\<close>

record draws =
  drawSuccess :: bool
  drawSerial :: int

text \<open>A form control: no such element, an element without a \<^verbatim>\<open>value\<close>, or its value.\<close>

datatype field = Missing | Valueless | Value string

definition fieldValue :: "field \<Rightarrow> string option" where
  "fieldValue f = (case f of Value s \<Rightarrow> Some s | _ \<Rightarrow> None)"

record form =
  paymentAmountField :: field
  paymentMethodChecked :: field
  customerNameField :: field
  customerEmailField :: field
  customerPhoneField :: field

text \<open>How a run of code ends: normally, or by an exception that nothing caught.\<close>

datatype outcome = Completed | Thrown js_error

datatype validation_error = InvalidAmount | MissingMethod | MissingEmail

text \<open>
  How \<^verbatim>\<open>handlePaymentSubmit\<close> ends: an exception, one of its three early returns (named as
  the specification names them), or past the checks with what it built.
\<close>

datatype 'a submit = Threw js_error | Rejected validation_error | Accepted 'a

definition textOf :: "string option \<Rightarrow> string" where
  "textOf v = (case v of Some s \<Rightarrow> s | None \<Rightarrow> [])"

section \<open>Display helpers\<close>

text \<open>
  \<^verbatim>\<open>showPaymentMessage(type, message)\<close>: when the document has \<^verbatim>\<open>#paymentMessage\<close> the text
  is put there and shown, and a timer of 5000 ms is set to hide it again.
\<close>

definition showPaymentMessage :: "string \<Rightarrow> string \<Rightarrow> page \<Rightarrow> page" where
  "showPaymentMessage ty message st =
     (case paymentMessage st of
        None \<Rightarrow> st
      | Some _ \<Rightarrow>
          st\<lparr>paymentMessage :=
                Some \<lparr>textContent = message, className = ''payment-message '' @ ty, display = ''block''\<rparr>,
             timers := timers st @ [(5000, HideMessage)]\<rparr>)"

definition hideMessage :: "page \<Rightarrow> page" where
  "hideMessage st = st\<lparr>paymentMessage := map_option (\<lambda>b. b\<lparr>display := ''none''\<rparr>) (paymentMessage st)\<rparr>"

definition showPaymentProcessing :: "bool \<Rightarrow> page \<Rightarrow> page" where
  "showPaymentProcessing isProcessing st =
     st\<lparr>paymentProcessing :=
          map_option (\<lambda>_. if isProcessing then ''block'' else ''none'') (paymentProcessing st),
        paymentForm :=
          map_option (\<lambda>_. if isProcessing then ''none'' else ''block'') (paymentForm st),
        paymentSuccess := map_option (\<lambda>_. ''none'') (paymentSuccess st)\<rparr>"

section \<open>The local payment history\<close>

text \<open>
  \<^verbatim>\<open>JSON.parse(localStorage.getItem('zakatPaymentHistory') || '[]')\<close>: an absent item and
  an empty text both read as the text \<^verbatim>\<open>[]\<close>.
\<close>

definition storedHistory :: "page \<Rightarrow> item" where
  "storedHistory st =
     (case storage st of
        None \<Rightarrow> Parsed (JArr [])
      | Some EmptyText \<Rightarrow> Parsed (JArr [])
      | Some t \<Rightarrow> t)"

definition historyRecord :: "json \<Rightarrow> clock \<Rightarrow> json" where
  "historyRecord payment clk =
     JObj (setProp (spreadProps payment) ''timestamp'' (JNum (Fin (of_int (nowMs clk)))))"

text \<open>
  What \<^verbatim>\<open>JSON.parse\<close> reads back from the text that \<^verbatim>\<open>JSON.stringify\<close> writes of a value:
  a Number that is not finite is written as \<^verbatim>\<open>null\<close> and the negative zero as \<^verbatim>\<open>0\<close>;
  everything else comes back as it was.
\<close>

fun normalize :: "json \<Rightarrow> json" where
  "normalize (JNum x) = (case x of Fin r \<Rightarrow> JNum (Fin r) | NegZero \<Rightarrow> JNum (Fin 0) | _ \<Rightarrow> JNull)"
| "normalize (JArr xs) = JArr (map normalize xs)"
| "normalize (JObj kvs) = JObj (map (map_prod id normalize) kvs)"
| "normalize v = v"

text \<open>
  \<^verbatim>\<open>
  savePaymentToHistory(payment) {
      let paymentHistory = JSON.parse(localStorage.getItem('zakatPaymentHistory') || '[]');
      paymentHistory.push({ ...payment, timestamp: new Date().getTime() });
      localStorage.setItem('zakatPaymentHistory', JSON.stringify(paymentHistory));
  }
  \<close>
  The same text stands in both sources. Reading \<^verbatim>\<open>localStorage\<close> throws when the browser
  denies it, \<^verbatim>\<open>JSON.parse\<close> throws on a text that is not JSON, \<^verbatim>\<open>push\<close> is not a function
  of a value that is not an array, and \<^verbatim>\<open>setItem\<close> throws when the text does not fit the
  quota; in each case the item stays as it was. Otherwise the item holds the text of the
  extended array, which reads back as its \<open>normalize\<close>.
\<close>

definition savePaymentToHistory :: "engine \<Rightarrow> json \<Rightarrow> clock \<Rightarrow> page \<Rightarrow> outcome \<times> page" where
  "savePaymentToHistory eng payment clk st =
     (if storageDenied eng then (Thrown (DOMException ''SecurityError''), st)
      else
        case storedHistory st of
          Parsed (JArr paymentHistory) \<Rightarrow>
            if storageAccepts eng (JArr (paymentHistory @ [historyRecord payment clk])) then
              (Completed,
               st\<lparr>storage :=
                    Some (Parsed (normalize (JArr (paymentHistory @ [historyRecord payment clk]))))\<rparr>)
            else (Thrown (DOMException ''QuotaExceededError''), st)
        | Parsed _ \<Rightarrow> (Thrown (TypeError ''paymentHistory.push''), st)
        | _ \<Rightarrow> (Thrown (SyntaxError ''JSON.parse''), st))"


text \<open>
  The summary that \<^verbatim>\<open>showPaymentComplete\<close> of \<^verbatim>\<open>payment.js\<close> renders, as far as it can
  throw:
  \<^verbatim>\<open>
  const formattedDate = new Date(paymentResult.date).toLocaleDateString('ms-MY', {...});
  paymentDetails.innerHTML = `...
      ${paymentResult.transaction_id || paymentResult.id || 'N/A'} ...
      ${parseFloat(paymentResult.amount).toFixed(2)} ...
      ${this.formatPaymentMethod(paymentResult.method)} ... ${formattedDate} ...`;
  \<close>
  Reading a property of \<^verbatim>\<open>null\<close> throws; the date, the identifier, the amount and the
  method (as the property key of \<^verbatim>\<open>methods[methodCode]\<close>) are converted to primitives in
  this order, which throws for a value that cannot be converted. The text rendered is not
  modelled.
\<close>

definition summaryError :: "json \<Rightarrow> js_error option" where
  "summaryError paymentResult =
     (if paymentResult = JNull then Some (TypeError ''paymentResult.date'')
      else if \<not> convertibleVal (getProp paymentResult ''date'') then
        Some (TypeError ''new Date(paymentResult.date)'')
      else if \<not> convertibleVal
                (if truthy (getProp paymentResult ''transaction_id'')
                 then getProp paymentResult ''transaction_id''
                 else if truthy (getProp paymentResult ''id'') then getProp paymentResult ''id''
                 else Val (JStr ''N/A'')) then
        Some (TypeError ''paymentResult.transaction_id || paymentResult.id'')
      else if \<not> convertibleVal (getProp paymentResult ''amount'') then
        Some (TypeError ''parseFloat(paymentResult.amount)'')
      else if \<not> convertibleVal (getProp paymentResult ''method'') then
        Some (TypeError ''methods[methodCode]'')
      else None)"

text \<open>
  The summary of \<^verbatim>\<open>part_000\<close> prints \<^verbatim>\<open>${paymentResult.transactionId}\<close> in the place of
  the identifier.
\<close>

definition summaryError_part000 :: "json \<Rightarrow> js_error option" where
  "summaryError_part000 paymentResult =
     (if paymentResult = JNull then Some (TypeError ''paymentResult.date'')
      else if \<not> convertibleVal (getProp paymentResult ''date'') then
        Some (TypeError ''new Date(paymentResult.date)'')
      else if \<not> convertibleVal (getProp paymentResult ''transactionId'') then
        Some (TypeError ''paymentResult.transactionId'')
      else if \<not> convertibleVal (getProp paymentResult ''amount'') then
        Some (TypeError ''parseFloat(paymentResult.amount)'')
      else if \<not> convertibleVal (getProp paymentResult ''method'') then
        Some (TypeError ''methods[methodCode]'')
      else None)"

text \<open>
  \<^verbatim>\<open>showPaymentComplete(paymentResult)\<close>: the processing indicator and the form are hidden;
  when the document has \<^verbatim>\<open>#paymentSuccess\<close> it is shown, the summary is rendered (which
  can throw, see above) and put into \<^verbatim>\<open>#paymentDetails\<close> (a \<^verbatim>\<open>TypeError\<close> when that
  element is absent), and the payment is saved to the history. The two sources differ in
  the summary only; \<open>render\<close> is \<open>summaryError\<close> or \<open>summaryError_part000\<close>.
\<close>

definition showPaymentCompleteWith ::
  "(json \<Rightarrow> js_error option) \<Rightarrow> engine \<Rightarrow> json \<Rightarrow> clock \<Rightarrow> page \<Rightarrow> outcome \<times> page" where
  "showPaymentCompleteWith render eng paymentResult clk st =
     (let st1 = st\<lparr>paymentProcessing := map_option (\<lambda>_. ''none'') (paymentProcessing st),
                    paymentForm := map_option (\<lambda>_. ''none'') (paymentForm st)\<rparr>
      in case paymentSuccess st1 of
           None \<Rightarrow> (Completed, st1)
         | Some _ \<Rightarrow>
             (let st2 = st1\<lparr>paymentSuccess := Some ''block''\<rparr>
              in case render paymentResult of
                   Some e \<Rightarrow> (Thrown e, st2)
                 | None \<Rightarrow>
                     (case paymentDetails st2 of
                        None \<Rightarrow> (Thrown (TypeError ''paymentDetails.innerHTML''), st2)
                      | Some _ \<Rightarrow>
                          savePaymentToHistory eng paymentResult clk
                            (st2\<lparr>paymentDetails := Some (Some paymentResult)\<rparr>))))"

definition showPaymentComplete :: "engine \<Rightarrow> json \<Rightarrow> clock \<Rightarrow> page \<Rightarrow> outcome \<times> page" where
  "showPaymentComplete = showPaymentCompleteWith summaryError"

definition showPaymentComplete_part000 :: "engine \<Rightarrow> json \<Rightarrow> clock \<Rightarrow> page \<Rightarrow> outcome \<times> page" where
  "showPaymentComplete_part000 = showPaymentCompleteWith summaryError_part000"

section \<open>The gateway client\<close>

definition createPaymentSession :: "payload \<Rightarrow> page \<Rightarrow> page" where
  "createPaymentSession paymentDetails' st =
     st\<lparr>requests := requests st @
          [\<lparr>rq_method = ''POST'',
            rq_url = apiEndpoint st @ ''/v1/payments'',
            rq_headers = [(''Content-Type'', ''application/json''),
                          (''Authorization'', ''Bearer '' @ apiKey st),
                          (''X-Merchant-ID'', merchantId st)],
            rq_body = Some paymentDetails'\<rparr>]\<rparr>"


definition checkPaymentStatus :: "string \<Rightarrow> page \<Rightarrow> page" where
  "checkPaymentStatus paymentId st =
     st\<lparr>requests := requests st @
          [\<lparr>rq_method = ''GET'',
            rq_url = apiEndpoint st @ ''/v1/payments/'' @ paymentId,
            rq_headers = [(''Authorization'', ''Bearer '' @ apiKey st),
                          (''X-Merchant-ID'', merchantId st)],
            rq_body = None\<rparr>]\<rparr>"

definition checkPaymentStatus_settled :: "reply \<Rightarrow> js_error + json" where
  "checkPaymentStatus_settled rep =
     (case rep of
        NetworkFailure \<Rightarrow> Inl (Error ''Network error when checking payment status'')
      | Body result \<Rightarrow> Inr result)"

section \<open>Submission (\<^verbatim>\<open>payment.js\<close>)\<close>

text \<open>
  \<^verbatim>\<open>
  if (!paymentAmount || parseFloat(paymentAmount) <= 0) { showPaymentMessage('error', ...); return; }
  if (!paymentMethod) { showPaymentMessage('error', ...); return; }
  if (!customerEmail) { showPaymentMessage('error', ...); return; }
  this.showPaymentProcessing(true);
  const payload = { amount: parseFloat(paymentAmount).toFixed(2), ... };
  if (this.isTestMode) { setTimeout(() => { ... }, 2000); }
  else { this.createPaymentSession(payload).then(...).catch(...); }
  \<close>
  The amount is read with \<^verbatim>\<open>document.getElementById('paymentAmount').value\<close>, which throws
  when the element is absent; the other controls are read with \<^verbatim>\<open>?.value\<close>.
\<close>

definition buildPayload :: "engine \<Rightarrow> clock \<Rightarrow> form \<Rightarrow> page \<Rightarrow> payload" where
  "buildPayload eng clk frm st =
     (let paymentAmount = fieldValue (paymentAmountField frm);
          paymentMethod = fieldValue (paymentMethodChecked frm);
          customerName = fieldValue (customerNameField frm);
          customerEmail = fieldValue (customerEmailField frm);
          customerPhone = fieldValue (customerPhoneField frm)
      in \<lparr>amount = toFixed eng 2 (parseFloat (textOf paymentAmount)),
          currency = ''MYR'',
          reference_id = ''ZAKAT-'' @ intToString (nowMs clk),
          description = ''Pembayaran Zakat'',
          customer_name = (if truthyText customerName then textOf customerName else ''Pembayar Zakat''),
          customer_email = textOf customerEmail,
          customer_phone = (if truthyText customerPhone then textOf customerPhone else []),
          payment_method = mapPaymentMethod (textOf paymentMethod),
          redirect_return_url = href (location st) @ ''?payment_status=completed'',
          redirect_cancel_url = href (location st) @ ''?payment_status=cancelled'',
          metadata_source = ''ZakatNOW Calculator''\<rparr>)"

definition handlePaymentSubmit :: "engine \<Rightarrow> clock \<Rightarrow> form \<Rightarrow> page \<Rightarrow> payload submit \<times> page" where
  "handlePaymentSubmit eng clk frm st =
     (if paymentAmountField frm = Missing then (Threw (TypeError ''paymentAmount.value''), st)
      else
        let paymentAmount = fieldValue (paymentAmountField frm);
            paymentMethod = fieldValue (paymentMethodChecked frm);
            customerEmail = fieldValue (customerEmailField frm)
        in if falsyText paymentAmount \<or> numLeZero (parseFloat (textOf paymentAmount)) then
             (Rejected InvalidAmount,
              showPaymentMessage ''error'' ''Sila masukkan jumlah pembayaran yang sah.'' st)
           else if falsyText paymentMethod then
             (Rejected MissingMethod,
              showPaymentMessage ''error'' ''Sila pilih kaedah pembayaran.'' st)
           else if falsyText customerEmail then
             (Rejected MissingEmail,
              showPaymentMessage ''error'' ''Sila masukkan alamat emel.'' st)
           else
             let st1 = showPaymentProcessing True st;
                 payload = buildPayload eng clk frm st
             in if isTestMode st then
                  (Accepted payload,
                   st1\<lparr>timers := timers st1 @
                         [(2000, SimulateGateway (textOf paymentAmount) (textOf paymentMethod))]\<rparr>)
                else (Accepted payload, createPaymentSession payload st1))"

text \<open>
  The first timer of the simulated gateway: on a success draw an information message and
  a second timer of 1500 ms, otherwise the error message and the form again.
\<close>

definition simulateGateway :: "string \<Rightarrow> string \<Rightarrow> draws \<Rightarrow> page \<Rightarrow> page" where
  "simulateGateway paymentAmount paymentMethod drw st =
     (if drawSuccess drw then
        (let st1 = showPaymentMessage ''info'' ''Mengalihkan ke gateway pembayaran...'' st
         in st1\<lparr>timers := timers st1 @ [(1500, SimulateRedirect paymentAmount paymentMethod)]\<rparr>)
      else showPaymentProcessing False
             (showPaymentMessage ''error'' ''Pembayaran gagal. Sila cuba lagi.'' st))"

definition simulateRedirect ::
  "engine \<Rightarrow> string \<Rightarrow> string \<Rightarrow> draws \<Rightarrow> clock \<Rightarrow> page \<Rightarrow> outcome \<times> page" where
  "simulateRedirect eng paymentAmount paymentMethod drw clk st =
     showPaymentComplete eng
       (JObj [(''status'', JStr ''success''),
              (''transaction_id'', JStr (''SPM'' @ intToString (drawSerial drw))),
              (''amount'', JStr paymentAmount),
              (''method'', JStr paymentMethod),
              (''date'', JStr (nowISO clk))])
       clk st"



section \<open>Submission (\<^verbatim>\<open>part_000\<close>)\<close>

text \<open>
  The variant reads the amount and the method only, has the first two checks, and always
  simulates the payment with a single timer of 2000 ms.
\<close>

definition handlePaymentSubmit_part000 :: "form \<Rightarrow> page \<Rightarrow> unit submit \<times> page" where
  "handlePaymentSubmit_part000 frm st =
     (if paymentAmountField frm = Missing then (Threw (TypeError ''paymentAmount.value''), st)
      else
        let paymentAmount = fieldValue (paymentAmountField frm);
            paymentMethod = fieldValue (paymentMethodChecked frm)
        in if falsyText paymentAmount \<or> numLeZero (parseFloat (textOf paymentAmount)) then
             (Rejected InvalidAmount,
              showPaymentMessage ''error'' ''Sila masukkan jumlah pembayaran yang sah.'' st)
           else if falsyText paymentMethod then
             (Rejected MissingMethod,
              showPaymentMessage ''error'' ''Sila pilih kaedah pembayaran.'' st)
           else
             let st1 = showPaymentProcessing True st
             in (Accepted (),
                 st1\<lparr>timers := timers st1 @
                       [(2000, SimulatePayment (textOf paymentAmount) (textOf paymentMethod))]\<rparr>))"

definition simulatePayment ::
  "engine \<Rightarrow> string \<Rightarrow> string \<Rightarrow> draws \<Rightarrow> clock \<Rightarrow> page \<Rightarrow> outcome \<times> page" where
  "simulatePayment eng paymentAmount paymentMethod drw clk st =
     (if drawSuccess drw then
        showPaymentComplete_part000 eng
          (JObj [(''status'', JStr ''success''),
                 (''transactionId'', JStr (''TRX'' @ intToString (drawSerial drw))),
                 (''amount'', JStr paymentAmount),
                 (''method'', JStr paymentMethod),
                 (''date'', JStr (nowISO clk))])
          clk st
      else (Completed,
            showPaymentProcessing False
              (showPaymentMessage ''error'' ''Pembayaran gagal. Sila cuba lagi.'' st)))"

section \<open>Reconciliation after the return from the gateway\<close>

text \<open>
  \<^verbatim>\<open>
  checkPaymentStatusFromUrl() {
      const urlParams = new URLSearchParams(window.location.search);
      const paymentStatus = urlParams.get('payment_status');
      const paymentId = urlParams.get('payment_id');
      if (paymentStatus === 'completed' && paymentId) {
          this.checkPaymentStatus(paymentId).then(...).catch(...);
      } else if (paymentStatus === 'cancelled') {
          this.showPaymentMessage('info', 'Pembayaran dibatalkan.');
          const url = new URL(window.location.href);
          url.searchParams.delete('payment_status');
          window.history.replaceState({}, document.title, url.toString());
      }
  }
  \<close>
\<close>

text \<open>
  \<^verbatim>\<open>window.history.replaceState({}, document.title, url.toString())\<close>, where \<open>ps\<close> are the
  pairs left in \<^verbatim>\<open>url.searchParams\<close>: the query of the visible location becomes their
  serialisation. The new URL differs from the document's in its query only, and the call
  is taken to succeed.
\<close>

definition replaceState :: "(string \<times> string) list \<Rightarrow> page \<Rightarrow> page" where
  "replaceState ps st =
     st\<lparr>location := (location st)\<lparr>query := serializeParams ps, searchParams := ps\<rparr>\<rparr>"

definition checkPaymentStatusFromUrl :: "page \<Rightarrow> page" where
  "checkPaymentStatusFromUrl st =
     (let urlParams = searchParams (location st);
          paymentStatus = getParam urlParams ''payment_status'';
          paymentId = getParam urlParams ''payment_id''
      in if paymentStatus = Some ''completed'' \<and> truthyText paymentId then
           checkPaymentStatus (textOf paymentId) st
         else if paymentStatus = Some ''cancelled'' then
           (let st1 = showPaymentMessage ''info'' ''Pembayaran dibatalkan.'' st
            in replaceState (deleteParam ''payment_status'' (searchParams (location st1))) st1)
         else st)"

text \<open>
  The continuation of the status lookup:
  \<^verbatim>\<open>
  .then(result => {
      if (result.success && result.status === 'paid') {
          this.showPaymentComplete(result);
          const url = new URL(window.location.href);
          url.searchParams.delete('payment_status');
          url.searchParams.delete('payment_id');
          window.history.replaceState({}, document.title, url.toString());
      } else {
          this.showPaymentMessage('error', 'Pengesahan pembayaran gagal. Sila hubungi pihak pentadbir.');
      } })
  .catch(error => { this.showPaymentMessage('error', 'Ralat pengesahan: ' + error.message); });
  \<close>
\<close>

definition verificationError :: "engine \<Rightarrow> js_error \<Rightarrow> page \<Rightarrow> page" where
  "verificationError eng e st =
     showPaymentMessage ''error'' (''Ralat pengesahan: '' @ messageOf eng e) st"

definition paidResult :: "json \<Rightarrow> bool" where
  "paidResult result =
     (truthy (getProp result ''success'') \<and> getProp result ''status'' = Val (JStr ''paid''))"

definition checkPaymentStatusFromUrl_settled :: "engine \<Rightarrow> clock \<Rightarrow> reply \<Rightarrow> page \<Rightarrow> page" where
  "checkPaymentStatusFromUrl_settled eng clk rep st =
     (case checkPaymentStatus_settled rep of
        Inl e \<Rightarrow> verificationError eng e st
      | Inr result \<Rightarrow>
          if result = JNull then verificationError eng (TypeError ''result.success'') st
          else if paidResult result then
            (case showPaymentComplete eng result clk st of
               (Thrown e, st1) \<Rightarrow> verificationError eng e st1
             | (Completed, st1) \<Rightarrow>
                 replaceState
                   (deleteParam ''payment_id''
                      (deleteParam ''payment_status'' (searchParams (location st1))))
                   st1)
          else
            showPaymentMessage ''error''
              ''Pengesahan pembayaran gagal. Sila hubungi pihak pentadbir.'' st)"

section \<open>A concrete page, engine, clock and forms\<close>

text \<open>
  The page as the \<^verbatim>\<open>DOMContentLoaded\<close> handler of \<^verbatim>\<open>payment.js\<close> sets it up (credentials
  of the source, test mode on), with every display region present, nothing stored and
  nothing pending.
\<close>

definition examplePage :: page where
  "examplePage =
     \<lparr>apiKey = ''sp_test_yourApiKey'', merchantId = ''M12345678'',
      apiEndpoint = ''https://api.securepay.my'', isTestMode = True,
      location = \<lparr>origin_path = ''https://zakat.example/'', query = None, searchParams = [],
                  fragment = []\<rparr>,
      navigation = None, storage = None,
      paymentProcessing = Some ''none'', paymentForm = Some ''block'',
      paymentSuccess = Some ''none'', paymentDetails = Some None,
      paymentMessage = Some \<lparr>textContent = [], className = ''payment-message'', display = ''none''\<rparr>,
      timers = [], requests = []\<rparr>"


text \<open>The page as loaded with the query parameters \<open>ps\<close>.\<close>

definition returnedPage :: "(string \<times> string) list \<Rightarrow> page" where
  "returnedPage ps =
     examplePage\<lparr>location := (location examplePage)\<lparr>query := serializeParams ps, searchParams := ps\<rparr>\<rparr>"

text \<open>
  An engine for the examples: it prints the whole part of a number, accepts as URLs the
  strings that start with \<^verbatim>\<open>https://\<close> and hold no space, and its storage is usable and
  takes every text.
\<close>

definition exampleEngine :: engine where
  "exampleEngine =
     \<lparr>numberToString = (\<lambda>r. intToString \<lfloor>r\<rfloor>),
      nativeToString = (\<lambda>k. ''function '' @ k @ ''() { [native code] }''),
      nativeMessage = (\<lambda>_. ''[engine error]''),
      urlParses = (\<lambda>u. take 8 u = ''https://'' \<and> 8 < length u \<and> CHR '' '' \<notin> set u),
      storageDenied = False,
      storageAccepts = (\<lambda>_. True)\<rparr>"

definition exampleClock :: clock where
  "exampleClock = \<lparr>nowMs = 1700000000000, nowISO = ''2023-11-14T22:13:20.000Z''\<rparr>"

text \<open>A form with the given amount text, checked method and email control.\<close>

definition exampleForm :: "string \<Rightarrow> field \<Rightarrow> field \<Rightarrow> form" where
  "exampleForm a m e =
     \<lparr>paymentAmountField = Value a, paymentMethodChecked = m,
      customerNameField = Value [], customerEmailField = e, customerPhoneField = Value []\<rparr>"


definition pendingReply :: json where
  "pendingReply = JObj [(''success'', JBool True), (''status'', JStr ''pending''), (''id'', JStr ''P1'')]"





section \<open>Supporting lemmas\<close>

lemma parseFloat_150: "parseFloat ''150.00'' = Fin 150"
  by code_simp

lemma parseFloat_abc: "parseFloat ''abc'' = NaN"
  by code_simp




lemma showPaymentMessage_frame:
  "storage (showPaymentMessage ty m s) = storage s"
  "navigation (showPaymentMessage ty m s) = navigation s"
  "requests (showPaymentMessage ty m s) = requests s"
  "location (showPaymentMessage ty m s) = location s"
  by (simp_all add: showPaymentMessage_def split: option.splits)










lemma savePaymentToHistory_thrown:
  assumes "savePaymentToHistory eng p c st = (Thrown e, st')"
  shows "st' = st"
  using assms
  by (auto simp: savePaymentToHistory_def split: if_splits item.splits json.splits)







text \<open>
  Without the success region \<^verbatim>\<open>showPaymentComplete\<close> saves nothing: the call of
  \<^verbatim>\<open>savePaymentToHistory\<close> stands inside \<^verbatim>\<open>if (paymentSuccess)\<close>.
\<close>

lemma showPaymentComplete_without_region:
  assumes "paymentSuccess st = None"
  shows "fst (showPaymentComplete eng result clk st) = Completed
       \<and> storage (snd (showPaymentComplete eng result clk st)) = storage st"
  using assms by (simp add: showPaymentComplete_def showPaymentCompleteWith_def)

text \<open>
  The part of the amount check that holds: an absent or empty amount, and one that parses
  to a Number \<open>\<le> 0\<close>, is turned away with the amount message, and nothing else happens.
\<close>

lemma handlePaymentSubmit_rejects_amount:
  assumes "paymentAmountField frm \<noteq> Missing"
    and "falsyText (fieldValue (paymentAmountField frm))
         \<or> numLeZero (parseFloat (textOf (fieldValue (paymentAmountField frm))))"
  shows "handlePaymentSubmit eng clk frm st
           = (Rejected InvalidAmount,
              showPaymentMessage ''error'' ''Sila masukkan jumlah pembayaran yang sah.'' st)"
  using assms by (auto simp: handlePaymentSubmit_def Let_def)

text \<open>
  Past the three checks the payload carries the amount as \<^verbatim>\<open>toFixed(2)\<close> prints the
  parsed Number.
\<close>

lemma handlePaymentSubmit_amount_fixed:
  assumes "handlePaymentSubmit eng clk frm st = (Accepted p, st')"
  shows "amount p = toFixed eng 2 (parseFloat (textOf (fieldValue (paymentAmountField frm))))"
  using assms
  by (auto simp: handlePaymentSubmit_def buildPayload_def Let_def split: if_splits)

section \<open>The claims\<close>

subsection \<open>Validation of a submission\<close>

text \<open>
  Claim C1. A submitted amount that is absent, non-numeric or \<open>\<le> 0\<close> is to be turned away
  as an invalid amount. The check of the source is
  \<^verbatim>\<open>!paymentAmount || parseFloat(paymentAmount) <= 0\<close>, and \<^verbatim>\<open>parseFloat\<close> of a text that
  is not numeric is \<open>NaN\<close>, which is not \<open>\<le> 0\<close>: the submission of the amount \<^verbatim>\<open>abc\<close>
  with a method and an email passes all three checks, shows the processing indicator,
  schedules the simulated gateway, and carries the amount \<^verbatim>\<open>NaN\<close> in its payload.
\<close>

theorem handlePaymentSubmit_accepts_non_numeric_amount:
  "handlePaymentSubmit eng clk (exampleForm ''abc'' (Value ''card'') (Value ''a@b.com'')) examplePage
     = (Accepted (buildPayload eng clk (exampleForm ''abc'' (Value ''card'') (Value ''a@b.com'')) examplePage),
        (showPaymentProcessing True examplePage)\<lparr>timers := [(2000, SimulateGateway ''abc'' ''card'')]\<rparr>)
   \<and> amount (buildPayload eng clk (exampleForm ''abc'' (Value ''card'') (Value ''a@b.com'')) examplePage)
       = ''NaN''"
  by (simp add: handlePaymentSubmit_def buildPayload_def exampleForm_def fieldValue_def
      truthyText_def falsyText_def textOf_def parseFloat_abc numLeZero_def toFixed_def
      examplePage_def showPaymentProcessing_def)

text \<open>
  Claim C3. A submission whose amount and method pass their checks and whose customer
  email is absent or empty ends in the third early return, with the email message. The
  checks stand in the order amount, method, email, so the outcome is \<open>MissingEmail\<close>
  exactly when the first two pass and the email is absent or empty; the page then only
  shows the message.
\<close>

theorem handlePaymentSubmit_missing_email:
  "(fst (handlePaymentSubmit eng clk frm st) = Rejected MissingEmail)
     = (paymentAmountField frm \<noteq> Missing
        \<and> truthyText (fieldValue (paymentAmountField frm))
        \<and> \<not> numLeZero (parseFloat (textOf (fieldValue (paymentAmountField frm))))
        \<and> truthyText (fieldValue (paymentMethodChecked frm))
        \<and> falsyText (fieldValue (customerEmailField frm)))
   \<and> (fst (handlePaymentSubmit eng clk frm st) = Rejected MissingEmail \<longrightarrow>
        snd (handlePaymentSubmit eng clk frm st)
          = showPaymentMessage ''error'' ''Sila masukkan alamat emel.'' st)"
  by (auto simp: handlePaymentSubmit_def Let_def truthyText_def falsyText_def
      split: option.splits)

theorem handlePaymentSubmit_missing_email_witness:
  "fst (handlePaymentSubmit exampleEngine exampleClock
          (exampleForm ''150.00'' (Value ''card'') (Value [])) examplePage) = Rejected MissingEmail
   \<and> snd (handlePaymentSubmit exampleEngine exampleClock
          (exampleForm ''150.00'' (Value ''card'') (Value [])) examplePage)
       = showPaymentMessage ''error'' ''Sila masukkan alamat emel.'' examplePage
   \<and> fst (handlePaymentSubmit exampleEngine exampleClock
          (exampleForm ''150.00'' (Value ''card'') Missing) examplePage) = Rejected MissingEmail"
  using handlePaymentSubmit_missing_email
          [of exampleEngine exampleClock "exampleForm ''150.00'' (Value ''card'') (Value [])" examplePage]
        handlePaymentSubmit_missing_email
          [of exampleEngine exampleClock "exampleForm ''150.00'' (Value ''card'') Missing" examplePage]
  by (simp add: exampleForm_def fieldValue_def truthyText_def falsyText_def textOf_def
      parseFloat_150 numLeZero_def)

text \<open>
  Claim C9. The handler of \<^verbatim>\<open>part_000\<close> has no email check: a submission with an amount
  that passes the amount check and a selected method is accepted whatever the email
  control holds (also when it is absent or empty), the processing indicator is shown and
  the simulated payment is scheduled; no submission ends as \<open>MissingEmail\<close>.
\<close>

theorem handlePaymentSubmit_part000_ignores_email:
  "fst (handlePaymentSubmit_part000 frm st) \<noteq> Rejected MissingEmail
   \<and> (paymentAmountField frm = Value a \<and> a \<noteq> [] \<and> \<not> numLeZero (parseFloat a)
        \<and> paymentMethodChecked frm = Value m \<and> m \<noteq> [] \<longrightarrow>
        handlePaymentSubmit_part000 (frm\<lparr>customerEmailField := e\<rparr>) st
          = (Accepted (),
             (showPaymentProcessing True st)\<lparr>timers := timers st @ [(2000, SimulatePayment a m)]\<rparr>))"
  by (auto simp: handlePaymentSubmit_part000_def Let_def fieldValue_def truthyText_def
      falsyText_def textOf_def showPaymentProcessing_def)

theorem handlePaymentSubmit_part000_ignores_email_witness:
  "handlePaymentSubmit_part000 (exampleForm ''150.00'' (Value ''card'') Missing) examplePage
     = (Accepted (),
        (showPaymentProcessing True examplePage)\<lparr>timers := [(2000, SimulatePayment ''150.00'' ''card'')]\<rparr>)
   \<and> handlePaymentSubmit_part000 (exampleForm ''150.00'' (Value ''card'') (Value [])) examplePage
     = (Accepted (),
        (showPaymentProcessing True examplePage)\<lparr>timers := [(2000, SimulatePayment ''150.00'' ''card'')]\<rparr>)"
  using handlePaymentSubmit_part000_ignores_email
          [of "exampleForm ''150.00'' (Value ''card'') (Value ''a@b.com'')" examplePage
              "''150.00''" "''card''" Missing]
        handlePaymentSubmit_part000_ignores_email
          [of "exampleForm ''150.00'' (Value ''card'') (Value ''a@b.com'')" examplePage
              "''150.00''" "''card''" "Value []"]
  by (simp add: exampleForm_def parseFloat_150 numLeZero_def examplePage_def)

subsection \<open>The payment-method table\<close>

text \<open>
  Claim C4, as stated, fails twice. A code that names a property of \<^verbatim>\<open>Object.prototype\<close>
  is found by \<^verbatim>\<open>methodMapping[internalMethod]\<close> on the prototype, so the built-in is
  returned instead of \<^verbatim>\<open>'fpx'\<close>; and the empty code does not pass \<^verbatim>\<open>if (!paymentMethod)\<close>,
  so its submission ends as \<open>MissingMethod\<close>.
\<close>

theorem mapPaymentMethod_default_counterexample:
  "''toString'' \<notin> {''fpx'', ''card'', ''wallet'', ''qr''}
   \<and> mapPaymentMethod ''toString'' = Native ''toString''
   \<and> [] \<notin> {''fpx'', ''card'', ''wallet'', ''qr''}
   \<and> fst (handlePaymentSubmit exampleEngine exampleClock
            (exampleForm ''150.00'' (Value []) (Value ''a@b.com'')) examplePage)
       = Rejected MissingMethod"
  by (simp add: mapPaymentMethod_def objGet_def methodMapping_def truthy_def
      objectPrototypeKeys_def handlePaymentSubmit_def exampleForm_def fieldValue_def
      truthyText_def falsyText_def textOf_def parseFloat_150 numLeZero_def)

text \<open>
  Claim C4, amended. The table maps \<^verbatim>\<open>fpx\<close> to \<^verbatim>\<open>fpx\<close>, \<^verbatim>\<open>card\<close> to \<^verbatim>\<open>card\<close>, \<^verbatim>\<open>wallet\<close> to
  \<^verbatim>\<open>boost\<close> and \<^verbatim>\<open>qr\<close> to \<^verbatim>\<open>duitnow_qr\<close>; every other code that does not name a property
  of \<^verbatim>\<open>Object.prototype\<close> is mapped to \<^verbatim>\<open>fpx\<close>, and a submission with such a code, when
  the code is not empty and the amount and the email pass their checks, is accepted with
  the method \<^verbatim>\<open>fpx\<close> in its payload.
\<close>

theorem mapPaymentMethod_table:
  "mapPaymentMethod ''fpx'' = Val (JStr ''fpx'')
   \<and> mapPaymentMethod ''card'' = Val (JStr ''card'')
   \<and> mapPaymentMethod ''wallet'' = Val (JStr ''boost'')
   \<and> mapPaymentMethod ''qr'' = Val (JStr ''duitnow_qr'')
   \<and> (m \<notin> {''fpx'', ''card'', ''wallet'', ''qr''} \<and> m \<notin> set objectPrototypeKeys \<longrightarrow>
        mapPaymentMethod m = Val (JStr ''fpx'')
        \<and> (m \<noteq> [] \<and> paymentMethodChecked frm = Value m
             \<and> paymentAmountField frm = Value a \<and> a \<noteq> [] \<and> \<not> numLeZero (parseFloat a)
             \<and> customerEmailField frm = Value e \<and> e \<noteq> [] \<longrightarrow>
             fst (handlePaymentSubmit eng clk frm st) = Accepted (buildPayload eng clk frm st)
             \<and> payment_method (buildPayload eng clk frm st) = Val (JStr ''fpx'')))"
  by (auto simp: mapPaymentMethod_def objGet_def methodMapping_def truthy_def
      handlePaymentSubmit_def buildPayload_def Let_def fieldValue_def truthyText_def
      falsyText_def textOf_def)

theorem mapPaymentMethod_table_witness:
  "mapPaymentMethod ''crypto'' = Val (JStr ''fpx'')
   \<and> fst (handlePaymentSubmit exampleEngine exampleClock
            (exampleForm ''150.00'' (Value ''crypto'') (Value ''a@b.com'')) examplePage)
       = Accepted (buildPayload exampleEngine exampleClock
            (exampleForm ''150.00'' (Value ''crypto'') (Value ''a@b.com'')) examplePage)
   \<and> payment_method (buildPayload exampleEngine exampleClock
            (exampleForm ''150.00'' (Value ''crypto'') (Value ''a@b.com'')) examplePage)
       = Val (JStr ''fpx'')"
  using mapPaymentMethod_table
          [of "''crypto''" "exampleForm ''150.00'' (Value ''crypto'') (Value ''a@b.com'')"
              "''150.00''" "''a@b.com''" exampleEngine exampleClock examplePage]
  by (simp add: exampleForm_def objectPrototypeKeys_def parseFloat_150 numLeZero_def)

subsection \<open>The local payment history\<close>




subsection \<open>Reconciliation\<close>

text \<open>
  Claim C8. A page loaded with \<^verbatim>\<open>payment_status=completed\<close> and no payment id (none at
  all, or an empty one) is left exactly as it was: no request, no record, no message.
\<close>

theorem checkPaymentStatusFromUrl_completed_without_id:
  assumes "getParam (searchParams (location st)) ''payment_status'' = Some ''completed''"
    and "\<not> truthyText (getParam (searchParams (location st)) ''payment_id'')"
  shows "checkPaymentStatusFromUrl st = st"
  using assms by (simp add: checkPaymentStatusFromUrl_def)

theorem checkPaymentStatusFromUrl_completed_without_id_witness:
  "checkPaymentStatusFromUrl (returnedPage [(''payment_status'', ''completed'')])
     = returnedPage [(''payment_status'', ''completed'')]
   \<and> checkPaymentStatusFromUrl (returnedPage [(''payment_status'', ''completed''), (''payment_id'', [])])
     = returnedPage [(''payment_status'', ''completed''), (''payment_id'', [])]"
  using checkPaymentStatusFromUrl_completed_without_id
          [of "returnedPage [(''payment_status'', ''completed'')]"]
        checkPaymentStatusFromUrl_completed_without_id
          [of "returnedPage [(''payment_status'', ''completed''), (''payment_id'', [])]"]
  by (simp add: returnedPage_def getParam_def truthyText_def)






text \<open>
  Claim C10. When the status lookup fails or its answer is not a paid one, the visible
  location is left as it was (only the paid branch rewrites it), so loading the page
  again runs the lookup for the same payment id once more.
\<close>

theorem checkPaymentStatusFromUrl_unpaid_keeps_markers:
  assumes status: "getParam (searchParams (location st)) ''payment_status'' = Some ''completed''"
    and pid: "getParam (searchParams (location st)) ''payment_id'' = Some paymentId"
    and nonempty: "paymentId \<noteq> []"
    and unpaid: "rep = NetworkFailure \<or> (\<exists>result. rep = Body result \<and> \<not> paidResult result)"
  shows "location (checkPaymentStatusFromUrl_settled eng clk rep (checkPaymentStatusFromUrl st)) = location st
       \<and> checkPaymentStatusFromUrl (checkPaymentStatusFromUrl_settled eng clk rep (checkPaymentStatusFromUrl st))
           = checkPaymentStatus paymentId
               (checkPaymentStatusFromUrl_settled eng clk rep (checkPaymentStatusFromUrl st))"
proof -
  let ?st0 = "checkPaymentStatus paymentId st"
  let ?st1 = "checkPaymentStatusFromUrl_settled eng clk rep ?st0"
  have call: "checkPaymentStatusFromUrl st = ?st0"
    using status pid nonempty by (simp add: checkPaymentStatusFromUrl_def truthyText_def textOf_def)
  have loc0: "location ?st0 = location st"
    by (simp add: checkPaymentStatus_def)
  have loc1: "location ?st1 = location st"
    using unpaid loc0
    by (auto simp: checkPaymentStatusFromUrl_settled_def checkPaymentStatus_settled_def
        verificationError_def showPaymentMessage_frame)
  have "checkPaymentStatusFromUrl ?st1 = checkPaymentStatus paymentId ?st1"
    using status pid nonempty loc1
    by (simp add: checkPaymentStatusFromUrl_def truthyText_def textOf_def)
  with loc1 show ?thesis unfolding call by simp
qed

theorem checkPaymentStatusFromUrl_unpaid_keeps_markers_witness:
  "searchParams (location (checkPaymentStatusFromUrl_settled exampleEngine exampleClock (Body pendingReply)
      (checkPaymentStatusFromUrl
        (returnedPage [(''payment_status'', ''completed''), (''payment_id'', ''P1'')]))))
     = [(''payment_status'', ''completed''), (''payment_id'', ''P1'')]
   \<and> map rq_url (requests (checkPaymentStatusFromUrl
        (checkPaymentStatusFromUrl_settled exampleEngine exampleClock (Body pendingReply)
          (checkPaymentStatusFromUrl
            (returnedPage [(''payment_status'', ''completed''), (''payment_id'', ''P1'')])))))
     = [''https://api.securepay.my/v1/payments/P1'', ''https://api.securepay.my/v1/payments/P1'']"
proof -
  let ?st = "returnedPage [(''payment_status'', ''completed''), (''payment_id'', ''P1'')]"
  let ?st1 = "checkPaymentStatusFromUrl_settled exampleEngine exampleClock (Body pendingReply)
      (checkPaymentStatusFromUrl ?st)"
  have a: "getParam (searchParams (location ?st)) ''payment_status'' = Some ''completed''"
    and b: "getParam (searchParams (location ?st)) ''payment_id'' = Some ''P1''"
    and c: "''P1'' \<noteq> []"
    by (simp_all add: returnedPage_def getParam_def)
  have pending: "\<not> paidResult pendingReply" "pendingReply \<noteq> JNull"
    by (simp_all add: paidResult_def pendingReply_def getProp_def objGet_def truthy_def)
  then have d: "Body pendingReply = NetworkFailure
      \<or> (\<exists>result. Body pendingReply = Body result \<and> \<not> paidResult result)"
    by simp
  note kept = checkPaymentStatusFromUrl_unpaid_keeps_markers
      [OF a b c d, where eng = exampleEngine and clk = exampleClock]
  have first: "checkPaymentStatusFromUrl ?st = checkPaymentStatus ''P1'' ?st"
    using a b c by (simp add: checkPaymentStatusFromUrl_def truthyText_def textOf_def)
  have reqs: "map rq_url (requests ?st1) = [''https://api.securepay.my/v1/payments/P1'']"
    and ep: "apiEndpoint ?st1 = ''https://api.securepay.my''"
    unfolding first using pending
    by (simp_all add: checkPaymentStatusFromUrl_settled_def checkPaymentStatus_settled_def
        checkPaymentStatus_def showPaymentMessage_def returnedPage_def examplePage_def)
  have loc: "searchParams (location ?st) = [(''payment_status'', ''completed''), (''payment_id'', ''P1'')]"
    by (simp add: returnedPage_def)
  show ?thesis
    using kept reqs ep loc by (simp add: checkPaymentStatus_def)
qed

subsection \<open>The live gateway\<close>




end
